theory Spec2Isabelle
  imports Main
begin

section \<open>JavaScript values and objects\<close>

text \<open>
  The repository is JavaScript. The values that reach the code under study are
  primitives: \<open>undefined\<close>, \<open>null\<close>, booleans, numbers and strings. Numbers are
  only stored, compared with \<open>null\<close> and handed on, so an \<open>int\<close> carries them.
\<close>

datatype jsval = JUndefined | JNull | JBool bool | JNum int | JStr string

datatype error = TypeError

text \<open>
  The object that frames and sends data. It lives in \<open>lib/data/sender\<close>, outside the
  sources; \<open>LocalDataTrack\<close> reads its \<open>id\<close> and calls its \<open>send\<close>, nothing else.
\<close>

record data_track_sender =
  sender_id :: string

text \<open>A property holds a primitive or refers to the sender.\<close>

datatype slot = Prim jsval | Sender data_track_sender

text \<open>
  An object is a finite map from property names to data properties with their
  attributes, as \<open>Object.defineProperties\<close> sees them.
\<close>

record property =
  pvalue :: slot
  writable :: bool
  enumerable :: bool
  configurable :: bool

type_synonym jsobject = "string \<rightharpoonup> property"

text \<open>
  A descriptor \<open>{ value: v }\<close> or \<open>{ enumerable: true, value: v }\<close>: the attributes
  a descriptor leaves out are false.
\<close>

definition descriptor :: "bool \<Rightarrow> slot \<Rightarrow> property" where
  "descriptor e v = \<lparr>pvalue = v, writable = False, enumerable = e, configurable = False\<rparr>"

fun defineProperties :: "jsobject \<Rightarrow> (string \<times> property) list \<Rightarrow> jsobject" where
  "defineProperties this [] = this"
| "defineProperties this ((k, d) # ds) = defineProperties (this(k \<mapsto> d)) ds"

text \<open>Reading \<open>this.k\<close>: a name the object does not have reads \<open>undefined\<close>.\<close>

definition get_property :: "jsobject \<Rightarrow> string \<Rightarrow> slot" where
  "get_property this k = (case this k of None \<Rightarrow> Prim JUndefined | Some p \<Rightarrow> pvalue p)"

text \<open>
  The assignment \<open>this.k = v\<close> in strict code: a new name becomes an ordinary
  property, a writable one takes the value, a non-writable one raises TypeError and
  keeps its value.
\<close>

definition assign_property :: "string \<Rightarrow> slot \<Rightarrow> jsobject \<Rightarrow> error + jsobject" where
  "assign_property k v this =
     (case this k of
        None \<Rightarrow> Inr (this(k \<mapsto> \<lparr>pvalue = v, writable = True, enumerable = True, configurable = True\<rparr>))
      | Some p \<Rightarrow> if writable p then Inr (this(k \<mapsto> p\<lparr>pvalue := v\<rparr>)) else Inl TypeError)"

text \<open>\<open>delete this.k\<close> in strict code: only a configurable property goes away.\<close>

definition delete_property :: "string \<Rightarrow> jsobject \<Rightarrow> error + jsobject" where
  "delete_property k this =
     (case this k of
        None \<Rightarrow> Inr this
      | Some p \<Rightarrow> if configurable p then Inr (this(k := None)) else Inl TypeError)"

text \<open>
  \<open>Object.assign(target, source)\<close>: every own property of the source overrides the
  target's, also when its value is \<open>undefined\<close>; a source that is \<open>undefined\<close>
  (the argument was left out) is skipped.
\<close>

definition Object_assign :: "(string \<rightharpoonup> jsval) \<Rightarrow> (string \<rightharpoonup> jsval) option \<Rightarrow> (string \<rightharpoonup> jsval)" where
  "Object_assign target source = (case source of None \<Rightarrow> target | Some s \<Rightarrow> target ++ s)"

text \<open>Reading \<open>options.k\<close>.\<close>

definition option_value :: "(string \<rightharpoonup> jsval) \<Rightarrow> string \<Rightarrow> jsval" where
  "option_value options k = (case options k of None \<Rightarrow> JUndefined | Some v \<Rightarrow> v)"

section \<open>LocalDataTrack (lib/media/track/localdatatrack.js)\<close>

text \<open>Modelled from the spec: the base constructor \<open>Track\<close> of \<open>lib/media/track/index.js\<close>,
  which is not among the sources. The spec: "Sets \<open>id\<close> from the sender's \<open>id\<close>;
  \<open>kind\<close> fixed to "data"; \<open>name\<close> defaults to \<open>id\<close> unless explicitly supplied in
  options." The constructor is called as \<open>Track.call(this, id, kind, options)\<close>.
\<close>

definition Track :: "string \<Rightarrow> string \<Rightarrow> (string \<rightharpoonup> jsval) \<Rightarrow> jsobject" where
  "Track id' kind' options =
     defineProperties Map.empty
       [(''id'', descriptor True (Prim (JStr id'))),
        (''kind'', descriptor True (Prim (JStr kind'))),
        (''name'', descriptor True
           (Prim (case options ''name'' of None \<Rightarrow> JStr id' | Some n \<Rightarrow> n)))]"

text \<open>
  The constructor. Called without \<open>new\<close> it calls itself with \<open>new\<close>, so both
  ways build the same object; the logger it prepares is handed to \<open>Track\<close> and
  plays no part below.

  The defaults that \<open>Object.assign\<close> lays under the caller's options. The entries
  \<open>DataTrackSender\<close> and \<open>logLevel\<close> are not values of the model: the sender's
  constructor is the argument \<open>DataTrackSender\<close> below, whether it is the default one
  or an injected one, and logging leaves no trace in the track.
\<close>

definition defaults :: "string \<rightharpoonup> jsval" where
  "defaults = [''maxPacketLifeTime'' \<mapsto> JNull, ''maxRetransmits'' \<mapsto> JNull, ''ordered'' \<mapsto> JBool True]"

definition LocalDataTrack ::
  "(jsval \<Rightarrow> jsval \<Rightarrow> jsval \<Rightarrow> data_track_sender) \<Rightarrow> (string \<rightharpoonup> jsval) option \<Rightarrow> jsobject" where
  "LocalDataTrack DataTrackSender options0 =
     (let options = Object_assign defaults options0;
          dataTrackSender = DataTrackSender
            (option_value options ''maxPacketLifeTime'')
            (option_value options ''maxRetransmits'')
            (option_value options ''ordered'');
          this = Track (sender_id dataTrackSender) ''data'' options
      in defineProperties this
           [(''_dataTrackSender'', descriptor False (Sender dataTrackSender)),
            (''maxPacketLifeTime'', descriptor True (Prim (option_value options ''maxPacketLifeTime''))),
            (''maxRetransmits'', descriptor True (Prim (option_value options ''maxRetransmits''))),
            (''ordered'', descriptor True (Prim (option_value options ''ordered''))),
            (''reliable'', descriptor True
               (Prim (JBool (option_value options ''maxPacketLifeTime'' = JNull
                           \<and> option_value options ''maxRetransmits'' = JNull))))])"

text \<open>
  \<open>send\<close> hands the data to the sender's own \<open>send\<close>, which is outside the sources:
  the call is recorded with its receiver and its argument. A receiver without a
  sender in \<open>_dataTrackSender\<close> raises TypeError.
\<close>

datatype 'd sender_call = SenderSend data_track_sender 'd

definition send :: "'d \<Rightarrow> jsobject \<Rightarrow> error + jsobject \<times> 'd sender_call list" where
  "send data this =
     (case get_property this ''_dataTrackSender'' of
        Sender s \<Rightarrow> Inr (this, [SenderSend s data])
      | Prim v \<Rightarrow> Inl TypeError)"

text \<open>
  What can be done to a track after its construction: \<open>send\<close>, and from outside an
  assignment to a property or its deletion. An operation that raises leaves the
  object as it was; the caller may catch the error and go on.
\<close>

datatype 'd operation = Send 'd | Assign string slot | Delete string

fun perform :: "'d operation \<Rightarrow> jsobject \<Rightarrow> jsobject" where
  "perform (Send d) this = (case send d this of Inl e \<Rightarrow> this | Inr (this', cs) \<Rightarrow> this')"
| "perform (Assign k v) this = (case assign_property k v this of Inl e \<Rightarrow> this | Inr this' \<Rightarrow> this')"
| "perform (Delete k) this = (case delete_property k this of Inl e \<Rightarrow> this | Inr this' \<Rightarrow> this')"

fun perform_all :: "'d operation list \<Rightarrow> jsobject \<Rightarrow> jsobject" where
  "perform_all [] this = this"
| "perform_all (x # xs) this = perform_all xs (perform x this)"

definition fixed_properties :: "string list" where
  "fixed_properties =
     [''_dataTrackSender'', ''maxPacketLifeTime'', ''maxRetransmits'', ''ordered'', ''reliable'']"

section \<open>Track signaling\<close>

text \<open>
  The one event of the change-notification channel. It carries nothing: whoever
  listens reads the entity again.
\<close>

datatype event = Updated

text \<open>
  The trackState record of the room signaling protocol, as the server sends it and
  as \<open>LocalTrackPublicationV2#Representation\<close> documents it: \<open>enabled\<close>, \<open>id\<close>,
  \<open>kind\<close>, \<open>name\<close>, \<open>sid\<close>. The \<open>sid\<close> is absent until the server has assigned one.
  The other four fields are always there: the spec's data format lists them all and
  does not say what \<open>update\<close> makes of a record without \<open>enabled\<close>.
\<close>

record trackState =
  track_id :: string
  enabled :: bool
  kind :: string
  name :: string
  sid :: "string option"

subsection \<open>TrackSignaling (lib/signaling/track.js)\<close>

text \<open>Modelled from the spec: the class \<open>TrackSignaling\<close>, which is not among the
  sources. Its attributes are "identifier, human-readable name, kind, enabled flag"
  (the field \<open>track_id\<close> is the property \<open>id\<close>).
\<close>

record track_signaling =
  track_id :: string
  kind :: string
  name :: string
  isEnabled :: bool

text \<open>Modelled from the spec: \<open>TrackSignaling.enable\<close> and \<open>TrackSignaling.disable\<close>,
  which are not among the sources. "\<open>enable(enabled = true)\<close>: sets \<open>isEnabled\<close> to
  the given boolean (default true). If the new value differs from the current value,
  updates state and emits one "updated" notification; if unchanged, no notification
  and no state mutation. Returns the entity itself." "\<open>disable()\<close>: equivalent to
  \<open>enable(false)\<close>." The argument is \<open>None\<close> for a call without one. The result
  is the receiver as the call leaves it, with the events emitted on the way.
\<close>

definition enable ::
  "bool option \<Rightarrow> 'a track_signaling_scheme \<Rightarrow> 'a track_signaling_scheme \<times> event list" where
  "enable arg this =
     (let enabled = (case arg of None \<Rightarrow> True | Some b \<Rightarrow> b)
      in if isEnabled this \<noteq> enabled
         then (this\<lparr>isEnabled := enabled\<rparr>, [Updated])
         else (this, []))"

definition disable :: "'a track_signaling_scheme \<Rightarrow> 'a track_signaling_scheme \<times> event list" where
  "disable this = enable (Some False) this"

subsection \<open>RemoteTrackV2 (lib/signaling/v2/remotetrack.js)\<close>

text \<open>Modelled from the spec: \<open>RemoteTrackSignaling\<close> and \<open>RemoteTrackV2\<close>, of which only
  the tests are among the sources. The entity adds the server's \<open>sid\<close> and the
  deferred slot for the transport object: \<open>transport\<close> is \<open>None\<close> while the slot is
  unresolved, and \<open>waiters\<close> are the observers that asked for the object before it
  arrived, in the order they asked.
\<close>

record ('o, 'w) remote_track_signaling = track_signaling +
  sid :: "string option"
  transport :: "'o option"
  waiters :: "'w list"

text \<open>Modelled from the spec: "Constructed from a trackState record
  \<open>{id, kind, name, sid, enabled}\<close>; \<open>enabled\<close> determines the initial \<open>isEnabled\<close>";
  the slot is "initially empty".
\<close>

definition RemoteTrackV2 :: "trackState \<Rightarrow> ('o, 'w) remote_track_signaling" where
  "RemoteTrackV2 trackState =
     \<lparr>track_signaling.track_id = trackState.track_id trackState,
      kind = trackState.kind trackState,
      name = trackState.name trackState,
      isEnabled = enabled trackState,
      remote_track_signaling.sid = trackState.sid trackState,
      transport = None,
      waiters = []\<rparr>"

text \<open>Modelled from the spec: \<open>RemoteTrackV2.update\<close>. "Applies the enabled-flag
  reconciliation per 4.1's notification discipline (comparing the record's \<open>enabled\<close>
  field against current \<open>isEnabled\<close>). Returns the entity itself." The fields \<open>id\<close>,
  \<open>kind\<close>, \<open>name\<close>, \<open>sid\<close> "are not re-applied by update even if present in the
  incoming record".
\<close>

definition RemoteTrackV2_update ::
  "trackState \<Rightarrow> ('o, 'w) remote_track_signaling \<Rightarrow> ('o, 'w) remote_track_signaling \<times> event list" where
  "RemoteTrackV2_update trackState this = enable (Some (enabled trackState)) this"

text \<open>Modelled from the spec: \<open>setMediaStreamTrackOrDataTrackTransceiver\<close>, which the
  tests call and the spec names \<open>setTransportObject\<close>. "Resolves the deferred
  transport-object slot to \<open>obj\<close> if unresolved; a no-op (non-error) if already
  resolved. No notification is emitted for this." The observers that asked earlier
  "are resumed in the order they registered, exactly once, with the same value":
  the second component lists who is handed which object by this call.
\<close>

definition setMediaStreamTrackOrDataTrackTransceiver ::
  "'o \<Rightarrow> ('o, 'w) remote_track_signaling \<Rightarrow> ('o, 'w) remote_track_signaling \<times> ('w \<times> 'o) list" where
  "setMediaStreamTrackOrDataTrackTransceiver obj this =
     (case transport this of
        None \<Rightarrow> (this\<lparr>transport := Some obj, waiters := []\<rparr>, map (\<lambda>w. (w, obj)) (waiters this))
      | Some settled \<Rightarrow> (this, []))"

text \<open>Modelled from the spec: \<open>getMediaStreamTrackOrDataTrackTransceiver\<close>, which the
  tests call and the spec names \<open>getTransportObject\<close>, together with the observer
  \<open>w\<close> that waits on the future it returns. "Any observer asking before resolution must
  receive the eventual value once it arrives, and any observer asking after
  resolution must receive it immediately."
\<close>

definition getMediaStreamTrackOrDataTrackTransceiver ::
  "'w \<Rightarrow> ('o, 'w) remote_track_signaling \<Rightarrow> ('o, 'w) remote_track_signaling \<times> ('w \<times> 'o) list" where
  "getMediaStreamTrackOrDataTrackTransceiver w this =
     (case transport this of
        None \<Rightarrow> (this\<lparr>waiters := waiters this @ [w]\<rparr>, [])
      | Some obj \<Rightarrow> (this, [(w, obj)]))"

text \<open>The calls that reconcile the enabled flag, one after the other on one entity.\<close>

datatype call = Enable "bool option" | Disable | Update trackState

fun exec :: "call \<Rightarrow> ('o, 'w) remote_track_signaling \<Rightarrow> ('o, 'w) remote_track_signaling \<times> event list" where
  "exec (Enable arg) this = enable arg this"
| "exec Disable this = disable this"
| "exec (Update trackState) this = RemoteTrackV2_update trackState this"

fun run :: "call list \<Rightarrow> ('o, 'w) remote_track_signaling \<Rightarrow> ('o, 'w) remote_track_signaling \<times> event list" where
  "run [] this = (this, [])"
| "run (c # cs) this =
     (let (this', es) = exec c this; (this'', es') = run cs this' in (this'', es @ es'))"

text \<open>The value of \<open>isEnabled\<close> after each call of a sequence.\<close>

fun history :: "call list \<Rightarrow> ('o, 'w) remote_track_signaling \<Rightarrow> bool list" where
  "history [] this = []"
| "history (c # cs) this = isEnabled (fst (exec c this)) # history cs (fst (exec c this))"

text \<open>How often a flag that starts as \<open>b\<close> changes along a list of later values.\<close>

fun flips :: "bool \<Rightarrow> bool list \<Rightarrow> nat" where
  "flips b [] = 0"
| "flips b (x # xs) = (if x \<noteq> b then 1 else 0) + flips x xs"

text \<open>The calls on the deferred slot: supplying an object, and an observer asking.\<close>

datatype ('o, 'w) transport_call = SetTransport 'o | GetTransport 'w

fun transport_exec ::
  "('o, 'w) transport_call \<Rightarrow> ('o, 'w) remote_track_signaling
     \<Rightarrow> ('o, 'w) remote_track_signaling \<times> ('w \<times> 'o) list" where
  "transport_exec (SetTransport obj) this = setMediaStreamTrackOrDataTrackTransceiver obj this"
| "transport_exec (GetTransport w) this = getMediaStreamTrackOrDataTrackTransceiver w this"

fun transport_run ::
  "('o, 'w) transport_call list \<Rightarrow> ('o, 'w) remote_track_signaling
     \<Rightarrow> ('o, 'w) remote_track_signaling \<times> ('w \<times> 'o) list" where
  "transport_run [] this = (this, [])"
| "transport_run (c # cs) this =
     (let (this', ds) = transport_exec c this; (this'', ds') = transport_run cs this'
      in (this'', ds @ ds'))"

subsection \<open>LocalTrackPublicationV2 (lib/signaling/v2/localtrackpublication.js)\<close>

text \<open>Modelled from the spec: the fields of \<open>LocalTrackPublicationSignaling\<close>, which is
  not among the sources: those of \<open>TrackSignaling\<close> and a \<open>sid\<close> that is "initially
  unset".
\<close>

record local_track_publication_signaling = track_signaling +
  sid :: "string option"

text \<open>Modelled from the spec: \<open>setSid\<close> of \<open>LocalTrackPublicationSignaling\<close>, which is not
  among the sources. The \<open>sid\<close> is "initially unset (unknown until published),
  mutated exactly once from unset to a concrete value by the update protocol":
  \<open>setSid\<close> writes only while the \<open>sid\<close> is unset and only a concrete value, and an
  entity that holds a \<open>sid\<close> keeps it. "Calling \<open>update\<close> with the same \<open>sid\<close> already
  held is idempotent (no notification, no error)." Whether the one call that writes
  the \<open>sid\<close> notifies is the parameter \<open>fires\<close>: the spec's notification discipline
  says that no notification is emitted for a change to \<open>sid\<close>, while the
  documentation of \<open>update\<close> in the source announces \<open>@fires TrackSignaling#updated\<close>,
  and \<open>setSid\<close> is the only call \<open>update\<close> makes.
\<close>

definition setSid ::
  "bool \<Rightarrow> string option \<Rightarrow> local_track_publication_signaling
     \<Rightarrow> local_track_publication_signaling \<times> event list" where
  "setSid fires sid' this =
     (case sid this of
        Some held \<Rightarrow> (this, [])
      | None \<Rightarrow>
          (case sid' of
             None \<Rightarrow> (this, [])
           | Some assigned \<Rightarrow> (this\<lparr>sid := Some assigned\<rparr>, if fires then [Updated] else [])))"

text \<open>
  \<open>getState\<close> returns an object literal: its keys in the order written, each with a
  primitive value read from the entity.
\<close>

definition getState :: "local_track_publication_signaling \<Rightarrow> (string \<times> jsval) list" where
  "getState this =
     [(''enabled'', JBool (isEnabled this)),
      (''id'', JStr (track_id this)),
      (''kind'', JStr (kind this)),
      (''name'', JStr (name this))]"

text \<open>\<open>update\<close>: \<open>this.setSid(track.sid); return this;\<close>\<close>

definition LocalTrackPublicationV2_update ::
  "bool \<Rightarrow> trackState \<Rightarrow> local_track_publication_signaling
     \<Rightarrow> local_track_publication_signaling \<times> event list" where
  "LocalTrackPublicationV2_update fires track this = setSid fires (trackState.sid track) this"

subsection \<open>Objects in a store\<close>

text \<open>
  Entities are objects and are handed around by reference; \<open>return this\<close> returns
  the reference the method was called on, and an object literal is a new object.
  A store is the list of the objects allocated so far, a reference an index into it.
\<close>

type_synonym ref = nat

datatype 'e object = Entity 'e | Literal "(string \<times> jsval) list"

type_synonym 'e store = "'e object list"

text \<open>
  The call \<open>this.m(...)\<close> of a method that mutates its receiver and ends in
  \<open>return this\<close>: the body runs on the entity stored at \<open>this\<close>, the entity is
  written back, and the reference itself is the result. A reference that holds no
  entity has no such method (\<open>None\<close>).
\<close>

definition invoke ::
  "('e \<Rightarrow> 'e \<times> 'x) \<Rightarrow> ref \<Rightarrow> 'e store \<Rightarrow> (ref \<times> 'e store \<times> 'x) option" where
  "invoke body this h =
     (if this < length h
      then (case h ! this of
              Entity e \<Rightarrow> (let (e', out) = body e in Some (this, h[this := Entity e'], out))
            | Literal l \<Rightarrow> None)
      else None)"

text \<open>The call \<open>this.getState()\<close>: the literal is allocated, its reference returned.\<close>

definition invoke_getState ::
  "ref \<Rightarrow> local_track_publication_signaling store
     \<Rightarrow> (ref \<times> local_track_publication_signaling store) option" where
  "invoke_getState this h =
     (if this < length h
      then (case h ! this of
              Entity e \<Rightarrow> Some (length h, h @ [Literal (getState e)])
            | Literal l \<Rightarrow> None)
      else None)"

subsection \<open>Example values\<close>

text \<open>The trackState of the spec's scenario, and the sender of its data-track scenario.\<close>

definition example_trackState :: trackState where
  "example_trackState =
     \<lparr>trackState.track_id = ''t1'', enabled = True, trackState.kind = ''video'',
      trackState.name = ''n1'', trackState.sid = Some ''s1''\<rparr>"

definition example_publication :: local_track_publication_signaling where
  "example_publication =
     \<lparr>track_signaling.track_id = ''t2'', kind = ''audio'', name = ''mic'', isEnabled = True,
      sid = None\<rparr>"

text \<open>A publication that already holds a \<open>sid\<close>, and a record that carries another.\<close>

definition published_publication :: local_track_publication_signaling where
  "published_publication = example_publication\<lparr>sid := Some ''s1''\<rparr>"

definition other_trackState :: trackState where
  "other_trackState = example_trackState\<lparr>trackState.sid := Some ''s2''\<rparr>"

definition example_DataTrackSender :: "jsval \<Rightarrow> jsval \<Rightarrow> jsval \<Rightarrow> data_track_sender" where
  "example_DataTrackSender maxPacketLifeTime maxRetransmits ordered = \<lparr>sender_id = ''abc''\<rparr>"

section \<open>Properties of LocalDataTrack\<close>

lemmas constructor_defs =
  LocalDataTrack_def Track_def Let_def get_property_def descriptor_def
  Object_assign_def option_value_def defaults_def map_add_def

text \<open>
  C7. A LocalDataTrack is reliable exactly when its \<open>maxPacketLifeTime\<close> and its
  \<open>maxRetransmits\<close> are both \<open>null\<close>. Built without options it is reliable; built
  with options it is reliable exactly when each of the two is left out or given as
  \<open>null\<close>, so any other value for either of them makes it unreliable.
\<close>

theorem reliable_iff_both_null:
  "get_property (LocalDataTrack F opts) ''reliable'' =
     Prim (JBool (get_property (LocalDataTrack F opts) ''maxPacketLifeTime'' = Prim JNull
                \<and> get_property (LocalDataTrack F opts) ''maxRetransmits'' = Prim JNull))
   \<and> get_property (LocalDataTrack F None) ''reliable'' = Prim (JBool True)
   \<and> get_property (LocalDataTrack F (Some given)) ''reliable'' =
       Prim (JBool (given ''maxPacketLifeTime'' \<in> {None, Some JNull}
                  \<and> given ''maxRetransmits'' \<in> {None, Some JNull}))"
  by (auto simp add: constructor_defs split: option.splits)

theorem reliable_iff_both_null_witness:
  "get_property (LocalDataTrack example_DataTrackSender (Some Map.empty)) ''reliable'' = Prim (JBool True)
   \<and> get_property (LocalDataTrack example_DataTrackSender (Some [''maxRetransmits'' \<mapsto> JNum 3]))
        ''reliable'' = Prim (JBool False)
   \<and> get_property (LocalDataTrack example_DataTrackSender (Some [''maxPacketLifeTime'' \<mapsto> JNum 500]))
        ''reliable'' = Prim (JBool False)"
  using reliable_iff_both_null [of example_DataTrackSender None Map.empty]
    reliable_iff_both_null [of example_DataTrackSender None "[''maxRetransmits'' \<mapsto> JNum 3]"]
    reliable_iff_both_null [of example_DataTrackSender None "[''maxPacketLifeTime'' \<mapsto> JNum 500]"]
  by simp

text \<open>
  C8. The constructor builds one sender from the three delivery options after
  defaulting and keeps it in \<open>_dataTrackSender\<close>. The track's \<open>id\<close> is that sender's
  \<open>id\<close>, its \<open>kind\<close> is "data", and its \<open>name\<close> is the \<open>name\<close> of the caller's options
  when they have one and the sender's \<open>id\<close> otherwise.
\<close>

theorem LocalDataTrack_id_kind_name:
  "(let options = Object_assign defaults opts;
        sender = F (option_value options ''maxPacketLifeTime'')
                   (option_value options ''maxRetransmits'')
                   (option_value options ''ordered'');
        this = LocalDataTrack F opts
    in get_property this ''_dataTrackSender'' = Sender sender
     \<and> get_property this ''id'' = Prim (JStr (sender_id sender))
     \<and> get_property this ''kind'' = Prim (JStr ''data'')
     \<and> get_property this ''name'' =
         Prim (case options ''name'' of None \<Rightarrow> JStr (sender_id sender) | Some n \<Rightarrow> n)
     \<and> options ''name'' = (case opts of None \<Rightarrow> None | Some given \<Rightarrow> given ''name''))"
  by (auto simp add: constructor_defs split: option.splits)

theorem LocalDataTrack_id_kind_name_witness:
  "get_property (LocalDataTrack example_DataTrackSender (Some Map.empty)) ''id'' = Prim (JStr ''abc'')
   \<and> get_property (LocalDataTrack example_DataTrackSender (Some Map.empty)) ''kind'' = Prim (JStr ''data'')
   \<and> get_property (LocalDataTrack example_DataTrackSender (Some Map.empty)) ''name'' = Prim (JStr ''abc'')
   \<and> get_property (LocalDataTrack example_DataTrackSender (Some [''name'' \<mapsto> JStr ''foo''])) ''name''
        = Prim (JStr ''foo'')"
  using LocalDataTrack_id_kind_name [of "Some Map.empty" example_DataTrackSender]
    LocalDataTrack_id_kind_name [of "Some [''name'' \<mapsto> JStr ''foo'']" example_DataTrackSender]
  by (simp add: Let_def Object_assign_def defaults_def option_value_def example_DataTrackSender_def)

lemma LocalDataTrack_owns_sender:
  "\<exists>s. get_property (LocalDataTrack F opts) ''_dataTrackSender'' = Sender s"
  by (simp add: LocalDataTrack_def Let_def get_property_def descriptor_def)

text \<open>
  C9. \<open>send\<close> on a LocalDataTrack raises nothing, calls \<open>send\<close> of the sender the
  track owns exactly once, with the very data it was given, and returns the track as
  it was.
\<close>

theorem send_forwards_once:
  "\<exists>s. get_property (LocalDataTrack F opts) ''_dataTrackSender'' = Sender s
      \<and> send data (LocalDataTrack F opts) = Inr (LocalDataTrack F opts, [SenderSend s data])"
  using LocalDataTrack_owns_sender [of F opts] by (auto simp: send_def)

theorem send_forwards_once_witness:
  "send ''hello'' (LocalDataTrack example_DataTrackSender None) =
     Inr (LocalDataTrack example_DataTrackSender None, [SenderSend \<lparr>sender_id = ''abc''\<rparr> ''hello''])"
  using send_forwards_once [of example_DataTrackSender None "''hello''"]
  by (simp add: LocalDataTrack_def Let_def get_property_def descriptor_def example_DataTrackSender_def)

lemma perform_keeps_fixed:
  "this k = Some p \<Longrightarrow> \<not> writable p \<Longrightarrow> \<not> configurable p \<Longrightarrow> perform x this k = Some p"
  by (cases x)
     (auto simp: send_def assign_property_def delete_property_def split: slot.splits option.splits)

lemma perform_all_keeps_fixed:
  "this k = Some p \<Longrightarrow> \<not> writable p \<Longrightarrow> \<not> configurable p \<Longrightarrow> perform_all xs this k = Some p"
  by (induction xs arbitrary: this) (simp_all add: perform_keeps_fixed)

lemma fixed_at_construction:
  "k \<in> set fixed_properties \<Longrightarrow>
     \<exists>p. LocalDataTrack F opts k = Some p \<and> \<not> writable p \<and> \<not> configurable p"
  by (auto simp: fixed_properties_def LocalDataTrack_def Let_def descriptor_def)

text \<open>
  C10. The constructor defines \<open>_dataTrackSender\<close>, \<open>maxPacketLifeTime\<close>,
  \<open>maxRetransmits\<close>, \<open>ordered\<close> and \<open>reliable\<close> as properties that are neither writable
  nor configurable, and whatever is done to the track afterwards (\<open>send\<close>, an
  assignment, a deletion, in any number and order) leaves each of them as the
  constructor defined it.
\<close>

theorem LocalDataTrack_fixed_properties:
  "\<forall>k \<in> set fixed_properties.
     (\<exists>p. LocalDataTrack F opts k = Some p \<and> \<not> writable p \<and> \<not> configurable p)
   \<and> perform_all xs (LocalDataTrack F opts) k = LocalDataTrack F opts k"
  using fixed_at_construction perform_all_keeps_fixed by metis

theorem LocalDataTrack_fixed_properties_witness:
  "''reliable'' \<in> set fixed_properties
   \<and> get_property
        (perform_all [Send ''hello'', Assign ''reliable'' (Prim (JBool False)), Delete ''reliable'']
           (LocalDataTrack example_DataTrackSender None)) ''reliable'' = Prim (JBool True)"
  using LocalDataTrack_fixed_properties
    [of example_DataTrackSender None
        "[Send ''hello'', Assign ''reliable'' (Prim (JBool False)), Delete ''reliable'']"]
  by (simp add: fixed_properties_def constructor_defs)

section \<open>Properties of track signaling\<close>

subsection \<open>The enabled flag and its notifications\<close>

text \<open>
  A call of \<open>enable\<close> emits "updated" once when it changes \<open>isEnabled\<close> and nothing
  when it does not, on every entity that extends \<open>TrackSignaling\<close>.
\<close>

lemma enable_emits_iff_flips:
  "snd (enable arg e) = (if isEnabled (fst (enable arg e)) \<noteq> isEnabled e then [Updated] else [])"
  by (auto simp: enable_def Let_def split: option.splits)

lemma enable_result:
  "isEnabled (fst (enable arg e)) = (case arg of None \<Rightarrow> True | Some b \<Rightarrow> b)"
  by (auto simp: enable_def Let_def split: option.splits)

lemma exec_emits_iff_flips:
  "snd (exec c this) = (if isEnabled (fst (exec c this)) \<noteq> isEnabled this then [Updated] else [])"
  by (cases c) (simp_all add: disable_def RemoteTrackV2_update_def enable_emits_iff_flips)

text \<open>
  Over a sequence of \<open>enable\<close>, \<open>disable\<close> and \<open>update\<close> calls on a RemoteTrackV2
  there are as many notifications as changes of \<open>isEnabled\<close>.
\<close>

lemma run_counts_flips:
  "length (snd (run cs this)) = flips (isEnabled this) (history cs this)"
proof (induction cs arbitrary: this)
  case Nil
  show ?case by simp
next
  case (Cons c cs)
  obtain this' es where e: "exec c this = (this', es)"
    by (cases "exec c this")
  obtain this'' es' where r: "run cs this' = (this'', es')"
    by (cases "run cs this'")
  have "es = (if isEnabled this' \<noteq> isEnabled this then [Updated] else [])"
    using exec_emits_iff_flips [of c this] e by simp
  moreover have "length es' = flips (isEnabled this') (history cs this')"
    using Cons.IH [of this'] r by simp
  ultimately show ?case
    using e r by simp
qed

text \<open>
  The tests of RemoteTrackV2 in the sources, for every trackState: the constructor
  sets the fields; \<open>update\<close>, \<open>enable\<close> and \<open>disable\<close> set \<open>isEnabled\<close> and emit
  "updated" exactly when the flag changes.
\<close>

lemma RemoteTrackV2_constructor_tests:
  "track_id (RemoteTrackV2 ts) = trackState.track_id ts
   \<and> name (RemoteTrackV2 ts) = trackState.name ts
   \<and> remote_track_signaling.sid (RemoteTrackV2 ts) = trackState.sid ts
   \<and> isEnabled (RemoteTrackV2 ts) = enabled ts
   \<and> kind (RemoteTrackV2 ts) = trackState.kind ts"
  by (simp add: RemoteTrackV2_def)

lemma RemoteTrackV2_update_tests:
  "RemoteTrackV2_update (ts\<lparr>enabled := b\<rparr>) (RemoteTrackV2 (ts\<lparr>enabled := a\<rparr>)) =
     (RemoteTrackV2 (ts\<lparr>enabled := b\<rparr>), if a \<noteq> b then [Updated] else [])"
  by (auto simp: RemoteTrackV2_update_def RemoteTrackV2_def enable_def)

lemma RemoteTrackV2_enable_tests:
  "enable (Some b) (RemoteTrackV2 (ts\<lparr>enabled := a\<rparr>)) =
     (RemoteTrackV2 (ts\<lparr>enabled := b\<rparr>), if a \<noteq> b then [Updated] else [])"
  "enable None (RemoteTrackV2 (ts\<lparr>enabled := a\<rparr>)) =
     (RemoteTrackV2 (ts\<lparr>enabled := True\<rparr>), if a then [] else [Updated])"
  "disable (RemoteTrackV2 (ts\<lparr>enabled := a\<rparr>)) =
     (RemoteTrackV2 (ts\<lparr>enabled := False\<rparr>), if a then [Updated] else [])"
  by (auto simp: RemoteTrackV2_def enable_def disable_def)

text \<open>
  \<open>update\<close> on a local publication notifies exactly when the call writes the \<open>sid\<close>
  and \<open>setSid\<close> notifies of that; \<open>isEnabled\<close> is not touched either way.
\<close>

lemma LocalTrackPublicationV2_update_emits:
  "snd (LocalTrackPublicationV2_update fires track p) =
     (if fires \<and> sid p = None \<and> trackState.sid track \<noteq> None then [Updated] else [])"
  by (auto simp add: LocalTrackPublicationV2_update_def setSid_def split: option.splits)

subsection \<open>RemoteTrackV2.update\<close>

text \<open>
  C3. \<open>update\<close> on a RemoteTrackV2 leaves \<open>id\<close>, \<open>kind\<close>, \<open>name\<close> and \<open>sid\<close> as they
  are, whatever the incoming trackState holds in those fields: the entity after the
  call is the entity before it with \<open>isEnabled\<close> set to the record's \<open>enabled\<close>.
\<close>

theorem RemoteTrackV2_update_frame:
  "track_id (fst (RemoteTrackV2_update trackState this)) = track_id this
   \<and> kind (fst (RemoteTrackV2_update trackState this)) = kind this
   \<and> name (fst (RemoteTrackV2_update trackState this)) = name this
   \<and> remote_track_signaling.sid (fst (RemoteTrackV2_update trackState this)) =
       remote_track_signaling.sid this
   \<and> fst (RemoteTrackV2_update trackState this) = this\<lparr>isEnabled := enabled trackState\<rparr>"
  by (auto simp add: RemoteTrackV2_update_def enable_def Let_def)

theorem RemoteTrackV2_update_frame_witness:
  "fst (RemoteTrackV2_update
          \<lparr>trackState.track_id = ''other'', enabled = False, trackState.kind = ''audio'',
           trackState.name = ''renamed'', trackState.sid = Some ''s9''\<rparr>
          (RemoteTrackV2 example_trackState :: (unit, unit) remote_track_signaling)) =
     \<lparr>track_signaling.track_id = ''t1'', kind = ''video'', name = ''n1'', isEnabled = False,
      remote_track_signaling.sid = Some ''s1'', transport = None, waiters = []\<rparr>"
  using RemoteTrackV2_update_frame
    [of "\<lparr>trackState.track_id = ''other'', enabled = False, trackState.kind = ''audio'',
          trackState.name = ''renamed'', trackState.sid = Some ''s9''\<rparr>"
        "RemoteTrackV2 example_trackState :: (unit, unit) remote_track_signaling"]
  by (simp add: RemoteTrackV2_def example_trackState_def)

subsection \<open>The deferred transport object\<close>

lemma settled_transport_exec:
  "transport this = Some x \<Longrightarrow>
     fst (transport_exec c this) = this \<and> (\<forall>d \<in> set (snd (transport_exec c this)). snd d = x)"
  by (cases c)
     (simp_all add: setMediaStreamTrackOrDataTrackTransceiver_def
        getMediaStreamTrackOrDataTrackTransceiver_def)

lemma settled_transport_run:
  "transport this = Some x \<Longrightarrow>
     fst (transport_run cs this) = this \<and> (\<forall>d \<in> set (snd (transport_run cs this)). snd d = x)"
proof (induction cs)
  case Nil
  then show ?case by simp
next
  case (Cons c cs)
  from settled_transport_exec [OF Cons.prems, of c] Cons.IH [OF Cons.prems]
  show ?case by (auto simp: split_beta Let_def)
qed

lemma invoke_returns_this:
  "this < length h \<Longrightarrow> h ! this = Entity e \<Longrightarrow>
     invoke body this h = Some (this, h[this := Entity (fst (body e))], snd (body e))"
  by (simp add: invoke_def split_beta)

text \<open>
  C4. On a RemoteTrackV2 whose slot is unresolved, let \<open>x\<close> be the object supplied
  first. An observer that asks after the call is handed \<open>x\<close> at once. An observer
  that asks before the call is handed nothing then and is handed \<open>x\<close> by the call,
  after those that asked earlier. Supplying \<open>y\<close> afterwards changes nothing and hands
  nothing to anyone, and through any further calls the slot stays at \<open>x\<close> and every
  observer is handed \<open>x\<close>. The call returns the reference it was made on.
\<close>

theorem transport_object_resolves_once:
  assumes "transport this = None" and "r < length h" and "h ! r = Entity this"
  shows "getMediaStreamTrackOrDataTrackTransceiver w
           (fst (setMediaStreamTrackOrDataTrackTransceiver x this)) =
           (fst (setMediaStreamTrackOrDataTrackTransceiver x this), [(w, x)])
       \<and> snd (getMediaStreamTrackOrDataTrackTransceiver w this) = []
       \<and> snd (setMediaStreamTrackOrDataTrackTransceiver x
                 (fst (getMediaStreamTrackOrDataTrackTransceiver w this))) =
           map (\<lambda>v. (v, x)) (waiters this @ [w])
       \<and> setMediaStreamTrackOrDataTrackTransceiver y
           (fst (setMediaStreamTrackOrDataTrackTransceiver x this)) =
           (fst (setMediaStreamTrackOrDataTrackTransceiver x this), [])
       \<and> transport (fst (transport_run cs (fst (setMediaStreamTrackOrDataTrackTransceiver x this)))) =
           Some x
       \<and> (\<forall>d \<in> set (snd (transport_run cs (fst (setMediaStreamTrackOrDataTrackTransceiver x this)))).
            snd d = x)
       \<and> invoke (setMediaStreamTrackOrDataTrackTransceiver x) r h =
           Some (r, h[r := Entity (this\<lparr>transport := Some x, waiters := []\<rparr>)],
                 map (\<lambda>v. (v, x)) (waiters this))"
proof -
  let ?s = "fst (setMediaStreamTrackOrDataTrackTransceiver x this)"
  have s: "setMediaStreamTrackOrDataTrackTransceiver x this =
             (this\<lparr>transport := Some x, waiters := []\<rparr>, map (\<lambda>v. (v, x)) (waiters this))"
    using assms(1) by (simp add: setMediaStreamTrackOrDataTrackTransceiver_def)
  have t: "transport ?s = Some x"
    using s by simp
  have after: "getMediaStreamTrackOrDataTrackTransceiver w ?s = (?s, [(w, x)])"
    using t by (simp add: getMediaStreamTrackOrDataTrackTransceiver_def)
  have before: "snd (getMediaStreamTrackOrDataTrackTransceiver w this) = []"
    using assms(1) by (simp add: getMediaStreamTrackOrDataTrackTransceiver_def)
  have resumed: "snd (setMediaStreamTrackOrDataTrackTransceiver x
                        (fst (getMediaStreamTrackOrDataTrackTransceiver w this))) =
                   map (\<lambda>v. (v, x)) (waiters this @ [w])"
    using assms(1)
    by (simp add: getMediaStreamTrackOrDataTrackTransceiver_def
          setMediaStreamTrackOrDataTrackTransceiver_def)
  have second: "setMediaStreamTrackOrDataTrackTransceiver y ?s = (?s, [])"
    using t by (simp add: setMediaStreamTrackOrDataTrackTransceiver_def)
  have stays: "transport (fst (transport_run cs ?s)) = Some x"
    using settled_transport_run [OF t, of cs] t by simp
  have same: "\<forall>d \<in> set (snd (transport_run cs ?s)). snd d = x"
    using settled_transport_run [OF t, of cs] by simp
  have returns: "invoke (setMediaStreamTrackOrDataTrackTransceiver x) r h =
                   Some (r, h[r := Entity (this\<lparr>transport := Some x, waiters := []\<rparr>)],
                         map (\<lambda>v. (v, x)) (waiters this))"
    using invoke_returns_this [OF assms(2,3), of "setMediaStreamTrackOrDataTrackTransceiver x"] s
    by simp
  from after before resumed second stays same returns show ?thesis
    by blast
qed

theorem transport_object_resolves_once_witness:
  "transport (RemoteTrackV2 example_trackState :: (string, nat) remote_track_signaling) = None
   \<and> (0::nat) < length [Entity (RemoteTrackV2 example_trackState :: (string, nat) remote_track_signaling)]
   \<and> [Entity (RemoteTrackV2 example_trackState :: (string, nat) remote_track_signaling)] ! 0 =
       Entity (RemoteTrackV2 example_trackState)
   \<and> snd (transport_run [GetTransport 1, SetTransport ''x'', SetTransport ''y'', GetTransport 2]
            (RemoteTrackV2 example_trackState :: (string, nat) remote_track_signaling)) =
       [(1, ''x''), (2, ''x'')]
   \<and> map_option fst
        (invoke (setMediaStreamTrackOrDataTrackTransceiver ''x'') 0
           [Entity (RemoteTrackV2 example_trackState :: (string, nat) remote_track_signaling)]) = Some 0"
  using transport_object_resolves_once
    [of "RemoteTrackV2 example_trackState :: (string, nat) remote_track_signaling" 0
        "[Entity (RemoteTrackV2 example_trackState :: (string, nat) remote_track_signaling)]"
        1 "''x''" "''y''" "[]"]
  by (simp add: RemoteTrackV2_def getMediaStreamTrackOrDataTrackTransceiver_def
        setMediaStreamTrackOrDataTrackTransceiver_def)

subsection \<open>LocalTrackPublicationV2\<close>

lemma setSid_writes_once:
  "fst (setSid fires s p) = p\<lparr>sid := (case sid p of None \<Rightarrow> s | Some held \<Rightarrow> Some held)\<rparr>"
  by (simp add: setSid_def split: option.splits)

lemma setSid_again:
  "setSid fires s (fst (setSid fires s p)) = (fst (setSid fires s p), [])"
  by (simp add: setSid_def split: option.splits)

text \<open>
  C5, as the claim states it, fails: \<open>update\<close> does not set the \<open>sid\<close> of every
  entity from the record. A publication that holds the \<open>sid\<close> "s1" and is updated
  with a record whose \<open>sid\<close> is "s2" still holds "s1", whether or not \<open>setSid\<close>
  notifies.
\<close>

theorem LocalTrackPublicationV2_update_keeps_held_sid:
  "invoke (LocalTrackPublicationV2_update False other_trackState) 0 [Entity published_publication] =
     Some (0, [Entity published_publication], [])
   \<and> invoke (LocalTrackPublicationV2_update True other_trackState) 0 [Entity published_publication] =
     Some (0, [Entity published_publication], [])
   \<and> sid published_publication = Some ''s1''
   \<and> trackState.sid other_trackState = Some ''s2''
   \<and> sid published_publication \<noteq> trackState.sid other_trackState"
  by (simp add: invoke_def LocalTrackPublicationV2_update_def setSid_def
        published_publication_def other_trackState_def example_publication_def
        example_trackState_def)

text \<open>
  C5, amended. \<open>update\<close> on a local publication succeeds and returns the reference
  it was called on. In the store only that entity changes, and in the entity only
  \<open>sid\<close>: an entity whose \<open>sid\<close> is unset takes the record's \<open>sid\<close>, an entity that
  holds a \<open>sid\<close> keeps it. \<open>isEnabled\<close> is as before whatever the record's \<open>enabled\<close>
  is. A second \<open>update\<close> with the same record changes nothing, emits nothing and
  raises nothing.
\<close>

theorem LocalTrackPublicationV2_update_sets_unset_sid:
  assumes "this < length h" and "h ! this = Entity p"
  shows "(\<exists>es. invoke (LocalTrackPublicationV2_update fires track) this h =
            Some (this,
                  h[this := Entity (p\<lparr>sid := (case sid p of None \<Rightarrow> trackState.sid track
                                                 | Some held \<Rightarrow> Some held)\<rparr>)],
                  es))
       \<and> invoke (LocalTrackPublicationV2_update fires track) this
            (h[this := Entity (p\<lparr>sid := (case sid p of None \<Rightarrow> trackState.sid track
                                           | Some held \<Rightarrow> Some held)\<rparr>)]) =
            Some (this,
                  h[this := Entity (p\<lparr>sid := (case sid p of None \<Rightarrow> trackState.sid track
                                                 | Some held \<Rightarrow> Some held)\<rparr>)],
                  [])
       \<and> isEnabled (p\<lparr>sid := (case sid p of None \<Rightarrow> trackState.sid track
                                | Some held \<Rightarrow> Some held)\<rparr>) = isEnabled p"
proof -
  let ?p' = "p\<lparr>sid := (case sid p of None \<Rightarrow> trackState.sid track | Some held \<Rightarrow> Some held)\<rparr>"
  let ?h' = "h[this := Entity ?p']"
  have p': "fst (LocalTrackPublicationV2_update fires track p) = ?p'"
    by (simp add: LocalTrackPublicationV2_update_def setSid_writes_once)
  have first: "invoke (LocalTrackPublicationV2_update fires track) this h =
                 Some (this, ?h', snd (LocalTrackPublicationV2_update fires track p))"
    using invoke_returns_this [OF assms, of "LocalTrackPublicationV2_update fires track"] p'
    by simp
  have l: "this < length ?h'" and e: "?h' ! this = Entity ?p'"
    using assms(1) by simp_all
  have "LocalTrackPublicationV2_update fires track ?p' = (?p', [])"
    using setSid_again [of fires "trackState.sid track" p] p'
    by (simp add: LocalTrackPublicationV2_update_def)
  then have again: "invoke (LocalTrackPublicationV2_update fires track) this ?h' = Some (this, ?h', [])"
    using invoke_returns_this [OF l e, of "LocalTrackPublicationV2_update fires track"] by simp
  from first again show ?thesis
    by simp
qed

theorem LocalTrackPublicationV2_update_sets_unset_sid_witness:
  "(0::nat) < length [Entity example_publication]
   \<and> [Entity example_publication] ! 0 = Entity example_publication
   \<and> sid example_publication = None
   \<and> map_option (\<lambda>(r, h, es). (r, h))
        (invoke (LocalTrackPublicationV2_update True (example_trackState\<lparr>enabled := False\<rparr>)) 0
           [Entity example_publication]) =
       Some (0, [Entity published_publication])
   \<and> invoke (LocalTrackPublicationV2_update True (example_trackState\<lparr>enabled := False\<rparr>)) 0
        [Entity published_publication] =
       Some (0, [Entity published_publication], [])
   \<and> isEnabled published_publication
   \<and> [Entity published_publication] ! 0 = Entity published_publication
   \<and> map_option (\<lambda>(r, h, es). (r, h))
        (invoke (LocalTrackPublicationV2_update True other_trackState) 0
           [Entity published_publication]) =
       Some (0, [Entity published_publication])"
  using LocalTrackPublicationV2_update_sets_unset_sid
    [of 0 "[Entity example_publication]" example_publication True
        "example_trackState\<lparr>enabled := False\<rparr>"]
    LocalTrackPublicationV2_update_sets_unset_sid
    [of 0 "[Entity published_publication]" published_publication True other_trackState]
  by (auto simp add: example_trackState_def example_publication_def published_publication_def
        other_trackState_def)

text \<open>
  C6. \<open>getState\<close> on a local publication returns a new object whose keys are
  \<open>enabled\<close>, \<open>id\<close>, \<open>kind\<close> and \<open>name\<close>, with the entity's current values. It has no
  key \<open>sid\<close> and is the same whatever the entity's \<open>sid\<close> is. The call leaves the
  entity as it was, and no later method call on the entity changes the object that
  was returned.
\<close>

theorem getState_snapshot:
  assumes "this < length h" and "h ! this = Entity p"
  shows "invoke_getState this h = Some (length h, h @ [Literal (getState p)])
       \<and> map fst (getState p) = [''enabled'', ''id'', ''kind'', ''name'']
       \<and> map snd (getState p) = [JBool (isEnabled p), JStr (track_id p), JStr (kind p), JStr (name p)]
       \<and> ''sid'' \<notin> set (map fst (getState p))
       \<and> getState (p\<lparr>sid := s\<rparr>) = getState p
       \<and> (h @ [Literal (getState p)]) ! this = Entity p
       \<and> (\<forall>body :: local_track_publication_signaling
                      \<Rightarrow> local_track_publication_signaling \<times> event list.
            \<exists>h' es. invoke body this (h @ [Literal (getState p)]) = Some (this, h', es)
                  \<and> h' ! length h = Literal (getState p))"
proof -
  let ?h = "h @ [Literal (getState p)]"
  have l: "this < length ?h" and e: "?h ! this = Entity p"
    using assms by (simp_all add: nth_append)
  have "\<exists>h' es. invoke body this ?h = Some (this, h', es) \<and> h' ! length h = Literal (getState p)"
    for body :: "local_track_publication_signaling
                   \<Rightarrow> local_track_publication_signaling \<times> event list"
    using invoke_returns_this [OF l e, of body] assms(1) by simp
  then show ?thesis
    using assms by (simp add: invoke_getState_def getState_def nth_append)
qed

theorem getState_snapshot_witness:
  "(0::nat) < length [Entity example_publication]
   \<and> [Entity example_publication] ! 0 = Entity example_publication
   \<and> invoke_getState 0 [Entity example_publication] =
       Some (1, [Entity example_publication,
                 Literal [(''enabled'', JBool True), (''id'', JStr ''t2''),
                          (''kind'', JStr ''audio''), (''name'', JStr ''mic'')]])
   \<and> map_option (\<lambda>(r, h, es). h ! 1)
        (invoke disable 0 [Entity example_publication, Literal (getState example_publication)]) =
       Some (Literal [(''enabled'', JBool True), (''id'', JStr ''t2''),
                      (''kind'', JStr ''audio''), (''name'', JStr ''mic'')])"
  using getState_snapshot [of 0 "[Entity example_publication]" example_publication None]
  by (auto simp add: example_publication_def getState_def invoke_def disable_def enable_def)

end
